theory Spec2Isabelle
  imports Main "HOL-Library.Multiset"
begin

section \<open>Persisted data (prisma schema: VariantOption, VariantOptionValue)\<close>

text \<open>
  The two tables of the schema that the option functions touch. Rows are kept in
  insertion order. Identifiers are strings (\<open>cuid()\<close>), positions are integers.
  The timestamp columns \<open>createdAt\<close> and \<open>updatedAt\<close> are read by none of the
  functions below and are left out.
\<close>

record variant_option =
  vo_id :: string
  vo_name :: string
  vo_type :: string
  vo_position :: int
  vo_isRequired :: bool
  vo_shop :: string

record variant_option_value =
  vv_id :: string
  vv_value :: string
  vv_position :: int
  vv_isActive :: bool
  vv_variantOptionId :: string

record db =
  variant_options :: "variant_option list"
  variant_option_values :: "variant_option_value list"

text \<open>An option returned with \<open>include: { values: ... }\<close>.\<close>

record option_with_values =
  ov_option :: variant_option
  ov_values :: "variant_option_value list"

text \<open>
  A thrown JavaScript error: its class and its \<open>message\<close>. \<open>new Error(...)\<close> in the
  source builds a \<open>GenericError\<close>; the ORM throws errors of its own classes.
\<close>

datatype error_class = GenericError | PrismaKnownRequestError string | PrismaValidationError

datatype js_error = Err error_class string

fun message :: "js_error \<Rightarrow> string" where
  "message (Err c m) = m"

fun err_class :: "js_error \<Rightarrow> error_class" where
  "err_class (Err c m) = c"

section \<open>Value inputs: raw strings or objects\<close>

text \<open>
  An element of \<open>optionData.values\<close>: a raw string, or an object whose fields
  \<open>value\<close>, \<open>position\<close>, \<open>isActive\<close> may each be absent (\<open>undefined\<close>).
\<close>

datatype value_input =
  Raw string
| Obj "string option" "int option" "bool option"

text \<open>What \<open>value.value || value\<close> evaluates to: a string, or the element itself.\<close>

datatype value_field = VStr string | VObj value_input

text \<open>
  \<open>value.value || value\<close>: a property \<open>value\<close> of a string primitive is undefined, so a
  raw string yields itself; an object yields its \<open>value\<close> field unless that is absent or
  the empty string (both falsy), in which case the object itself is the result.
\<close>

fun value_of :: "value_input \<Rightarrow> value_field" where
  "value_of (Raw s) = VStr s"
| "value_of (Obj None p a) = VObj (Obj None p a)"
| "value_of (Obj (Some s) p a) = (if s = [] then VObj (Obj (Some s) p a) else VStr s)"

text \<open>
  JavaScript's \<open>a || b\<close> on a field that may be absent: \<open>b\<close> when \<open>a\<close> is falsy
  (absent, \<open>0\<close>, the empty string, \<open>false\<close>), else \<open>a\<close>.
\<close>

fun or_int :: "int option \<Rightarrow> int \<Rightarrow> int" where
  "or_int None b = b"
| "or_int (Some a) b = (if a = 0 then b else a)"

fun or_str :: "string option \<Rightarrow> string \<Rightarrow> string" where
  "or_str None b = b"
| "or_str (Some a) b = (if a = [] then b else a)"

fun or_bool :: "bool option \<Rightarrow> bool \<Rightarrow> bool" where
  "or_bool None b = b"
| "or_bool (Some a) b = (if a then a else b)"

text \<open>\<open>value.position || index\<close>; a string primitive has no \<open>position\<close>.\<close>

fun position_of :: "value_input \<Rightarrow> nat \<Rightarrow> int" where
  "position_of (Raw s) index = int index"
| "position_of (Obj v p a) index = or_int p (int index)"

text \<open>\<open>value.isActive !== undefined ? value.isActive : true\<close>.\<close>

fun isActive_of :: "value_input \<Rightarrow> bool" where
  "isActive_of (Raw s) = True"
| "isActive_of (Obj v p None) = True"
| "isActive_of (Obj v p (Some a)) = a"

record value_create =
  vc_value :: value_field
  vc_position :: int
  vc_isActive :: bool

text \<open>The callback of \<open>values.map((value, index) => ({...}))\<close>.\<close>

definition value_create_of :: "value_input \<Rightarrow> nat \<Rightarrow> value_create" where
  "value_create_of v index =
     \<lparr>vc_value = value_of v, vc_position = position_of v index, vc_isActive = isActive_of v\<rparr>"

text \<open>\<open>Array.prototype.map\<close> with the index passed to the callback.\<close>

definition map_index :: "('a \<Rightarrow> nat \<Rightarrow> 'b) \<Rightarrow> 'a list \<Rightarrow> 'b list" where
  "map_index f xs = map (\<lambda>(x, i). f x i) (zip xs [0..<length xs])"

definition values_create :: "value_input list \<Rightarrow> value_create list" where
  "values_create vals = map_index value_create_of vals"

section \<open>The ORM calls\<close>

text \<open>
  Every call to the ORM takes a first argument \<open>fault\<close>: \<open>Some e\<close> when the storage
  engine fails the call for a reason outside the data (connection lost, disk full), in
  which case the call throws \<open>e\<close> and writes nothing. Each single call is atomic, as the
  ORM runs a nested write in one transaction. The messages of the constraint errors are
  shortened; their error codes are the ORM's (P2002 unique constraint, P2025 record not
  found).
\<close>

definition unique_violation :: js_error where
  "unique_violation = Err (PrismaKnownRequestError ''P2002'') ''Unique constraint failed''"

definition record_not_found :: js_error where
  "record_not_found = Err (PrismaKnownRequestError ''P2025'') ''Record to update not found.''"

definition validation_error :: js_error where
  "validation_error = Err PrismaValidationError ''Invalid value provided. Expected String.''"

text \<open>
  \<open>@default(cuid())\<close>: \<open>n\<close> identifiers not in use in the table. The model takes strings
  longer than every identifier stored.
\<close>

definition fresh_ids :: "string list \<Rightarrow> nat \<Rightarrow> string list" where
  "fresh_ids used n =
     map (\<lambda>k. replicate (Suc (foldr max (map length used) 0) + k) CHR ''c'') [0..<n]"

definition fresh_id :: "string list \<Rightarrow> string" where
  "fresh_id used = replicate (Suc (foldr max (map length used) 0)) CHR ''c''"

fun is_VStr :: "value_field \<Rightarrow> bool" where
  "is_VStr (VStr s) = True"
| "is_VStr (VObj v) = False"

fun the_VStr :: "value_field \<Rightarrow> string" where
  "the_VStr (VStr s) = s"
| "the_VStr (VObj v) = []"

text \<open>The rows that \<open>values: { create: [...] }\<close> inserts for the option \<open>oid\<close>.\<close>

definition new_value_rows :: "db \<Rightarrow> string \<Rightarrow> value_create list \<Rightarrow> variant_option_value list" where
  "new_value_rows d oid vcs =
     map (\<lambda>(vc, i). \<lparr>vv_id = i, vv_value = the_VStr (vc_value vc), vv_position = vc_position vc,
                      vv_isActive = vc_isActive vc, vv_variantOptionId = oid\<rparr>)
         (zip vcs (fresh_ids (map vv_id (variant_option_values d)) (length vcs)))"

text \<open>The values owned by an option, in storage order.\<close>

definition values_of_option :: "db \<Rightarrow> string \<Rightarrow> variant_option_value list" where
  "values_of_option d oid = filter (\<lambda>v. vv_variantOptionId v = oid) (variant_option_values d)"

record create_data =
  cd_name :: string
  cd_type :: string
  cd_position :: int
  cd_isRequired :: bool
  cd_shop :: string
  cd_values :: "value_create list"

text \<open>
  \<open>prisma.variantOption.create({ data: {..., values: { create }}, include: { values: true } })\<close>.
  Rejected when a value is not a string, when \<open>(shop, name)\<close> is taken, or when two of
  the new values are equal (unique \<open>(variantOptionId, value)\<close>).
\<close>

definition variantOption_create ::
  "js_error option \<Rightarrow> db \<Rightarrow> create_data \<Rightarrow> (js_error + option_with_values) \<times> db" where
  "variantOption_create fault d cd =
     (case fault of Some e \<Rightarrow> (Inl e, d) | None \<Rightarrow>
      if \<not> list_all (\<lambda>vc. is_VStr (vc_value vc)) (cd_values cd) then (Inl validation_error, d)
      else if list_ex (\<lambda>o'. vo_shop o' = cd_shop cd \<and> vo_name o' = cd_name cd) (variant_options d)
        then (Inl unique_violation, d)
      else if \<not> distinct (map (\<lambda>vc. the_VStr (vc_value vc)) (cd_values cd))
        then (Inl unique_violation, d)
      else
        (let oid = fresh_id (map vo_id (variant_options d));
             row = \<lparr>vo_id = oid, vo_name = cd_name cd, vo_type = cd_type cd,
                    vo_position = cd_position cd, vo_isRequired = cd_isRequired cd,
                    vo_shop = cd_shop cd\<rparr>;
             rows = new_value_rows d oid (cd_values cd)
         in (Inr \<lparr>ov_option = row, ov_values = rows\<rparr>,
             d\<lparr>variant_options := variant_options d @ [row],
               variant_option_values := variant_option_values d @ rows\<rparr>)))"

text \<open>
  \<open>prisma.variantOptionValue.deleteMany({ where: { variantOptionId } })\<close>: returns the
  number of rows removed.
\<close>

definition variantOptionValue_deleteMany ::
  "js_error option \<Rightarrow> db \<Rightarrow> string \<Rightarrow> (js_error + nat) \<times> db" where
  "variantOptionValue_deleteMany fault d oid =
     (case fault of Some e \<Rightarrow> (Inl e, d) | None \<Rightarrow>
      (Inr (length (values_of_option d oid)),
       d\<lparr>variant_option_values :=
            filter (\<lambda>v. vv_variantOptionId v \<noteq> oid) (variant_option_values d)\<rparr>))"

text \<open>
  \<open>prisma.variantOption.update({ where: { id }, data: { name, type, values: { create }},
  include: { values: true } })\<close>. Rejected when a value is not a string, when no option
  has the id, when another option of the same shop has the new name, or when a new
  value repeats another new value or a value the option still owns.
\<close>

definition variantOption_update ::
  "js_error option \<Rightarrow> db \<Rightarrow> string \<Rightarrow> string \<Rightarrow> string \<Rightarrow> value_create list
     \<Rightarrow> (js_error + option_with_values) \<times> db" where
  "variantOption_update fault d oid name type vcs =
     (case fault of Some e \<Rightarrow> (Inl e, d) | None \<Rightarrow>
      if \<not> list_all (\<lambda>vc. is_VStr (vc_value vc)) vcs then (Inl validation_error, d)
      else (case find (\<lambda>o'. vo_id o' = oid) (variant_options d) of
        None \<Rightarrow> (Inl record_not_found, d)
      | Some old \<Rightarrow>
          if list_ex (\<lambda>o'. vo_id o' \<noteq> oid \<and> vo_shop o' = vo_shop old \<and> vo_name o' = name)
               (variant_options d)
            then (Inl unique_violation, d)
          else if \<not> distinct (map (\<lambda>vc. the_VStr (vc_value vc)) vcs @
                               map vv_value (values_of_option d oid))
            then (Inl unique_violation, d)
          else
            (let row = old\<lparr>vo_name := name, vo_type := type\<rparr>;
                 rows = new_value_rows d oid vcs;
                 d' = d\<lparr>variant_options :=
                          map (\<lambda>o'. if vo_id o' = oid then row else o') (variant_options d),
                        variant_option_values := variant_option_values d @ rows\<rparr>
             in (Inr \<lparr>ov_option = row, ov_values = values_of_option d' oid\<rparr>, d'))))"

text \<open>
  \<open>prisma.variantOption.findMany({ where: { shop }, include: { values: { orderBy:
  { position: 'asc' }}}, orderBy: { position: 'asc' } })\<close>.
\<close>

definition variantOption_findMany_shop ::
  "js_error option \<Rightarrow> db \<Rightarrow> string \<Rightarrow> js_error + option_with_values list" where
  "variantOption_findMany_shop fault d shop =
     (case fault of Some e \<Rightarrow> Inl e | None \<Rightarrow>
      Inr (map (\<lambda>o'. \<lparr>ov_option = o',
                      ov_values = sort_key vv_position (values_of_option d (vo_id o'))\<rparr>)
               (sort_key vo_position (filter (\<lambda>o'. vo_shop o' = shop) (variant_options d)))))"

text \<open>
  \<open>prisma.variantOption.findMany({ where: { id: { in: idsArray }, shop }, select:
  { id: true, name: true } })\<close>: the selected \<open>(id, name)\<close> of each matching row.
\<close>

definition variantOption_findMany_in ::
  "js_error option \<Rightarrow> db \<Rightarrow> string list \<Rightarrow> string \<Rightarrow> js_error + (string \<times> string) list" where
  "variantOption_findMany_in fault d idsArray shop =
     (case fault of Some e \<Rightarrow> Inl e | None \<Rightarrow>
      Inr (map (\<lambda>o'. (vo_id o', vo_name o'))
               (filter (\<lambda>o'. vo_id o' \<in> set idsArray \<and> vo_shop o' = shop) (variant_options d))))"

text \<open>
  \<open>prisma.variantOption.deleteMany({ where: { id: { in: idsArray }, shop } })\<close>, with
  \<open>onDelete: Cascade\<close> on the values' foreign key: the values of each removed option go
  with it. Returns the number of options removed.
\<close>

definition variantOption_deleteMany ::
  "js_error option \<Rightarrow> db \<Rightarrow> string list \<Rightarrow> string \<Rightarrow> (js_error + nat) \<times> db" where
  "variantOption_deleteMany fault d idsArray shop =
     (case fault of Some e \<Rightarrow> (Inl e, d) | None \<Rightarrow>
      (let gone = filter (\<lambda>o'. vo_id o' \<in> set idsArray \<and> vo_shop o' = shop) (variant_options d)
       in (Inr (length gone),
           \<lparr>variant_options =
              filter (\<lambda>o'. \<not> (vo_id o' \<in> set idsArray \<and> vo_shop o' = shop)) (variant_options d),
            variant_option_values =
              filter (\<lambda>v. vv_variantOptionId v \<notin> set (map vo_id gone))
                (variant_option_values d)\<rparr>)))"

section \<open>app/lib/shop.server.js\<close>

text \<open>
  The argument objects, with the fields that the destructuring gives a default as
  options (\<open>None\<close> is \<open>undefined\<close>).
\<close>

record option_data =
  od_name :: string
  od_type :: "string option"
  od_position :: "int option"
  od_isRequired :: "bool option"
  od_values :: "value_input list option"

record update_data =
  ud_name :: string
  ud_type :: "string option"
  ud_values :: "value_input list option"

text \<open>A destructuring default \<open>x = dflt\<close>: taken only when the field is undefined.\<close>

fun dflt :: "'a option \<Rightarrow> 'a \<Rightarrow> 'a" where
  "dflt None b = b"
| "dflt (Some a) b = a"

text \<open>\<open>createOptions(shop, optionData)\<close>; the \<open>catch\<close> logs and rethrows the error.\<close>

definition createOptions ::
  "js_error option \<Rightarrow> db \<Rightarrow> string \<Rightarrow> option_data \<Rightarrow> (js_error + option_with_values) \<times> db" where
  "createOptions fault d shop optionData =
     (let name = od_name optionData;
          type = dflt (od_type optionData) ''text'';
          position = dflt (od_position optionData) 0;
          isRequired = dflt (od_isRequired optionData) True;
          vals = dflt (od_values optionData) []
      in variantOption_create fault d
           \<lparr>cd_name = name, cd_type = type, cd_position = position, cd_isRequired = isRequired,
            cd_shop = shop, cd_values = values_create vals\<rparr>)"

text \<open>\<open>getOptions(shop)\<close>.\<close>

definition getOptions :: "js_error option \<Rightarrow> db \<Rightarrow> string \<Rightarrow> js_error + option_with_values list" where
  "getOptions fault d shop = variantOption_findMany_shop fault d shop"

text \<open>
  \<open>updateOptions(optionId, optionData)\<close>: two awaited calls, one after the other; the
  first has been committed when the second starts. \<open>fault1\<close> and \<open>fault2\<close> are the
  storage faults of the two calls.
\<close>

definition updateOptions ::
  "js_error option \<Rightarrow> js_error option \<Rightarrow> db \<Rightarrow> string \<Rightarrow> update_data
     \<Rightarrow> (js_error + option_with_values) \<times> db" where
  "updateOptions fault1 fault2 d optionId optionData =
     (let name = ud_name optionData;
          type = dflt (ud_type optionData) ''text'';
          vals = dflt (ud_values optionData) []
      in case variantOptionValue_deleteMany fault1 d optionId of
           (Inl e, d1) \<Rightarrow> (Inl e, d1)
         | (Inr n, d1) \<Rightarrow> variantOption_update fault2 d1 optionId name type (values_create vals))"

text \<open>\<open>optionIds\<close> is one id or an array of ids; \<open>shop\<close> may be undefined (\<open>None\<close>).\<close>

datatype ids_arg = OneId string | IdList "string list"

record delete_result =
  dr_success :: bool
  dr_count :: nat
  dr_deletedOptions :: "(string \<times> string) list"

text \<open>\<open>Array.isArray(optionIds) ? optionIds : [optionIds]\<close>.\<close>

fun ids_of :: "ids_arg \<Rightarrow> string list" where
  "ids_of (OneId i) = [i]"
| "ids_of (IdList is) = is"

text \<open>\<open>Array.prototype.join\<close>.\<close>

fun join :: "string \<Rightarrow> string list \<Rightarrow> string" where
  "join sep [] = []"
| "join sep [x] = x"
| "join sep (x # y # ys) = x @ sep @ join sep (y # ys)"

text \<open>
  The body of the \<open>try\<close> block of \<open>deleteOptions\<close>. \<open>!shop\<close> holds of an undefined
  shop and of the empty string.
\<close>

definition deleteOptions_try ::
  "js_error option \<Rightarrow> js_error option \<Rightarrow> db \<Rightarrow> ids_arg \<Rightarrow> string option
     \<Rightarrow> (js_error + delete_result) \<times> db" where
  "deleteOptions_try fault1 fault2 d optionIds shop =
     (let idsArray = ids_of optionIds in
      if length idsArray = 0 then (Inl (Err GenericError ''No option IDs provided for deletion''), d)
      else (case shop of
        None \<Rightarrow> (Inl (Err GenericError ''Shop identifier is required for deletion''), d)
      | Some s \<Rightarrow>
          if s = [] then (Inl (Err GenericError ''Shop identifier is required for deletion''), d)
          else (case variantOption_findMany_in fault1 d idsArray s of
            Inl e \<Rightarrow> (Inl e, d)
          | Inr existingOptions \<Rightarrow>
              if length existingOptions \<noteq> length idsArray then
                (let foundIds = map fst existingOptions;
                     notFoundIds = filter (\<lambda>i. i \<notin> set foundIds) idsArray
                 in (Inl (Err GenericError
                       (''Some options not found or don't belong to this shop: '' @
                          join '', '' notFoundIds)), d))
              else (case variantOption_deleteMany fault2 d idsArray s of
                (Inl e, d') \<Rightarrow> (Inl e, d')
              | (Inr deletedCount, d') \<Rightarrow>
                  (Inr \<lparr>dr_success = True, dr_count = deletedCount,
                        dr_deletedOptions = existingOptions\<rparr>, d')))))"

text \<open>
  \<open>deleteOptions(optionIds, shop)\<close>: the \<open>catch\<close> wraps whatever the \<open>try\<close> block threw
  in a new \<open>Error\<close>.
\<close>

definition deleteOptions ::
  "js_error option \<Rightarrow> js_error option \<Rightarrow> db \<Rightarrow> ids_arg \<Rightarrow> string option
     \<Rightarrow> (js_error + delete_result) \<times> db" where
  "deleteOptions fault1 fault2 d optionIds shop =
     (case deleteOptions_try fault1 fault2 d optionIds shop of
        (Inl error, d') \<Rightarrow>
          (Inl (Err GenericError (''Failed to delete options: '' @ message error)), d')
      | (Inr r, d') \<Rightarrow> (Inr r, d'))"

section \<open>UI state (app/utils/optionUtils.js, app/hooks/useOptions.js)\<close>

text \<open>
  An option id in the UI is a string (an id of the database) or a number
  (\<open>Date.now()\<close> of an optimistic insert); \<open>===\<close> never equates the two kinds.
\<close>

datatype ui_id = StrId string | NumId int

text \<open>\<open>!option.id\<close>.\<close>

fun falsy_id :: "ui_id \<Rightarrow> bool" where
  "falsy_id (StrId s) = (s = [])"
| "falsy_id (NumId n) = (n = 0)"

text \<open>
  UI objects. A field that some constructors of the source do not emit is an option:
  \<open>None\<close> when the object has no such field.
\<close>

record ui_value =
  uv_name :: string
  uv_checked :: bool
  uv_position :: "int option"

record ui_option =
  uo_id :: ui_id
  uo_name :: string
  uo_type :: string
  uo_position :: "int option"
  uo_isRequired :: "bool option"
  uo_values :: "ui_value list"

text \<open>Options as the loader hands them to the client (fields may be absent).\<close>

record loaded_value =
  lv_value :: string
  lv_isActive :: bool
  lv_position :: "int option"

record loaded_option =
  lo_id :: string
  lo_name :: string
  lo_type :: "string option"
  lo_position :: "int option"
  lo_isRequired :: "bool option"
  lo_values :: "loaded_value list"

text \<open>\<open>updateOptionObject(originalOption, optionName, values, optionType)\<close>.\<close>

definition updateOptionObject ::
  "ui_option \<Rightarrow> string \<Rightarrow> string list \<Rightarrow> string \<Rightarrow> ui_option" where
  "updateOptionObject originalOption optionName vals optionType =
     originalOption
       \<lparr>uo_name := optionName,
        uo_values :=
          map (\<lambda>v. case find (\<lambda>ev. uv_name ev = v) (uo_values originalOption) of
                     Some existingValue \<Rightarrow>
                       \<lparr>uv_name = v, uv_checked = uv_checked existingValue, uv_position = None\<rparr>
                   | None \<Rightarrow> \<lparr>uv_name = v, uv_checked = True, uv_position = None\<rparr>) vals,
        uo_type := optionType\<rparr>"

text \<open>\<open>transformLoadedOptions(loadedOptions)\<close> of optionUtils.js.\<close>

definition transformLoadedOptions :: "loaded_option list \<Rightarrow> ui_option list" where
  "transformLoadedOptions loadedOptions =
     map (\<lambda>option.
       \<lparr>uo_id = StrId (lo_id option),
        uo_name = lo_name option,
        uo_type = or_str (lo_type option) ''text'',
        uo_position = None,
        uo_isRequired = None,
        uo_values = map (\<lambda>v. \<lparr>uv_name = lv_value v, uv_checked = lv_isActive v,
                               uv_position = None\<rparr>) (lo_values option)\<rparr>) loadedOptions"

text \<open>\<open>transformOptions(serverOptions)\<close> of the hook.\<close>

definition transformOptions :: "loaded_option list \<Rightarrow> ui_option list" where
  "transformOptions serverOptions =
     map (\<lambda>option.
       \<lparr>uo_id = StrId (lo_id option),
        uo_name = lo_name option,
        uo_type = or_str (lo_type option) ''text'',
        uo_position = Some (or_int (lo_position option) 0),
        uo_isRequired = Some (or_bool (lo_isRequired option) True),
        uo_values = map (\<lambda>v. \<lparr>uv_name = lv_value v, uv_checked = lv_isActive v,
                               uv_position = Some (or_int (lv_position v) 0)\<rparr>)
                      (lo_values option)\<rparr>) serverOptions"

text \<open>
  The state updaters of the hook, as functions from the current list of options to the
  next one.
\<close>

definition handleToggleAllValues :: "ui_id \<Rightarrow> ui_option list \<Rightarrow> ui_option list" where
  "handleToggleAllValues optionId currentOptions =
     map (\<lambda>option.
       if uo_id option = optionId then
         (let allChecked = list_all uv_checked (uo_values option)
          in option\<lparr>uo_values := map (\<lambda>v. v\<lparr>uv_checked := \<not> allChecked\<rparr>) (uo_values option)\<rparr>)
       else option) currentOptions"

text \<open>
  \<open>addOption(newOption)\<close>: \<open>None\<close> is a null or undefined argument. An argument that
  is rejected leaves the state as it is.
\<close>

definition addOption :: "ui_option option \<Rightarrow> ui_option list \<Rightarrow> ui_option list" where
  "addOption newOption prevOptions =
     (case newOption of
        None \<Rightarrow> prevOptions
      | Some n \<Rightarrow>
          if falsy_id (uo_id n) then prevOptions
          else (case find (\<lambda>opt. uo_id opt = uo_id n) prevOptions of
                  Some existingOption \<Rightarrow>
                    map (\<lambda>opt. if uo_id opt = uo_id n then n else opt) prevOptions
                | None \<Rightarrow> prevOptions @ [n]))"

text \<open>
  The effect of the hook that syncs the state with the loader's data: when
  \<open>loadedOptions\<close> is an array (\<open>Some\<close>) the state becomes its transformation, else
  the state stays.
\<close>

definition syncOptions :: "loaded_option list option \<Rightarrow> ui_option list \<Rightarrow> ui_option list" where
  "syncOptions loadedOptions options =
     (case loadedOptions of None \<Rightarrow> options | Some l \<Rightarrow> transformOptions l)"

section \<open>Example data\<close>

definition five_values :: ui_option where
  "five_values = \<lparr>uo_id = StrId ''opt1'', uo_name = ''Size'', uo_type = ''text'',
     uo_position = Some 0, uo_isRequired = Some True,
     uo_values = [\<lparr>uv_name = ''XS'', uv_checked = True, uv_position = Some 0\<rparr>,
                  \<lparr>uv_name = ''S'', uv_checked = False, uv_position = Some 1\<rparr>,
                  \<lparr>uv_name = ''M'', uv_checked = True, uv_position = Some 2\<rparr>,
                  \<lparr>uv_name = ''L'', uv_checked = False, uv_position = Some 3\<rparr>,
                  \<lparr>uv_name = ''XL'', uv_checked = True, uv_position = Some 4\<rparr>]\<rparr>"

definition red_blue :: ui_option where
  "red_blue = \<lparr>uo_id = StrId ''opt2'', uo_name = ''Color'', uo_type = ''color'',
     uo_position = Some 0, uo_isRequired = Some True,
     uo_values = [\<lparr>uv_name = ''Red'', uv_checked = True, uv_position = Some 0\<rparr>,
                  \<lparr>uv_name = ''Blue'', uv_checked = False, uv_position = Some 1\<rparr>]\<rparr>"

definition colour_v1 :: ui_option where
  "colour_v1 = \<lparr>uo_id = NumId 1722170000000, uo_name = ''Colour'', uo_type = ''text'',
     uo_position = None, uo_isRequired = None,
     uo_values = [\<lparr>uv_name = ''Red'', uv_checked = True, uv_position = None\<rparr>]\<rparr>"

definition colour_v2 :: ui_option where
  "colour_v2 = \<lparr>uo_id = NumId 1722170000000, uo_name = ''Colour'', uo_type = ''color'',
     uo_position = None, uo_isRequired = None,
     uo_values = [\<lparr>uv_name = ''Red'', uv_checked = True, uv_position = None\<rparr>,
                  \<lparr>uv_name = ''Green'', uv_checked = True, uv_position = None\<rparr>]\<rparr>"

definition loaded_size :: loaded_option where
  "loaded_size = \<lparr>lo_id = ''opt1'', lo_name = ''Size'', lo_type = None, lo_position = Some 2,
     lo_isRequired = Some False,
     lo_values = [\<lparr>lv_value = ''S'', lv_isActive = True, lv_position = None\<rparr>,
                  \<lparr>lv_value = ''M'', lv_isActive = False, lv_position = Some 1\<rparr>]\<rparr>"

text \<open>The options of a shop among the given ids: what the verification query finds.\<close>

definition owned :: "db \<Rightarrow> string list \<Rightarrow> string \<Rightarrow> variant_option list" where
  "owned d ids s = filter (\<lambda>opt. vo_id opt \<in> set ids \<and> vo_shop opt = s) (variant_options d)"

definition shop_db :: db where
  "shop_db = \<lparr>variant_options =
       [\<lparr>vo_id = ''o1'', vo_name = ''Size'', vo_type = ''text'', vo_position = 2,
         vo_isRequired = True, vo_shop = ''shopX''\<rparr>,
        \<lparr>vo_id = ''o2'', vo_name = ''Color'', vo_type = ''color'', vo_position = 1,
         vo_isRequired = False, vo_shop = ''shopX''\<rparr>,
        \<lparr>vo_id = ''o3'', vo_name = ''Size'', vo_type = ''text'', vo_position = 0,
         vo_isRequired = True, vo_shop = ''shopY''\<rparr>],
     variant_option_values =
       [\<lparr>vv_id = ''v1'', vv_value = ''M'', vv_position = 1, vv_isActive = True,
         vv_variantOptionId = ''o1''\<rparr>,
        \<lparr>vv_id = ''v2'', vv_value = ''S'', vv_position = 0, vv_isActive = True,
         vv_variantOptionId = ''o1''\<rparr>,
        \<lparr>vv_id = ''v3'', vv_value = ''Red'', vv_position = 0, vv_isActive = False,
         vv_variantOptionId = ''o2''\<rparr>,
        \<lparr>vv_id = ''v4'', vv_value = ''L'', vv_position = 0, vv_isActive = True,
         vv_variantOptionId = ''o3''\<rparr>]\<rparr>"

definition empty_db :: db where
  "empty_db = \<lparr>variant_options = [], variant_option_values = []\<rparr>"

section \<open>Auxiliary lemmas\<close>

lemma or_bool_True: "or_bool b True = True"
  by (cases b) auto

lemma or_int_0: "or_int p 0 = (case p of None \<Rightarrow> 0 | Some q \<Rightarrow> q)"
  by (cases p) auto

lemma find_first_match:
  assumes "j < length xs" "P (xs ! j)" "\<forall>k<j. \<not> P (xs ! k)"
  shows "find P xs = Some (xs ! j)"
  using assms by (auto simp: find_Some_iff)

lemma find_unique_match:
  assumes "distinct (map f xs)" "x \<in> set xs" "f x = a"
  shows "find (\<lambda>y. f y = a) xs = Some x"
  using assms
proof (induction xs)
  case Nil
  then show ?case by simp
next
  case (Cons y ys)
  then show ?case by (cases "f y = a") (auto simp: image_iff)
qed

lemma find_no_match: "a \<notin> f ` set xs \<Longrightarrow> find (\<lambda>y. f y = a) xs = None"
  by (auto simp: find_None_iff)

lemma filter_replace_same_id:
  "filter (\<lambda>opt. f opt = f n) (map (\<lambda>opt. if f opt = f n then n else opt) s)
     = replicate (length (filter (\<lambda>opt. f opt = f n) s)) n"
  by (induction s) auto

lemma filter_replace_other_id:
  "filter (\<lambda>opt. f opt \<noteq> f n) (map (\<lambda>opt. if f opt = f n then n else opt) s)
     = filter (\<lambda>opt. f opt \<noteq> f n) s"
  by (induction s) auto

lemma in_image_conv: "(a \<in> f ` set s) = (\<exists>x\<in>set s. f x = a)"
  by auto

lemma find_None_filter: "(find P xs = None) = (filter P xs = [])"
  by (auto simp: find_None_iff filter_empty_conv)

lemma addOption_absent:
  "\<not> falsy_id (uo_id n) \<Longrightarrow> uo_id n \<notin> uo_id ` set s \<Longrightarrow> addOption (Some n) s = s @ [n]"
  by (auto simp: addOption_def find_None_iff in_image_conv split: option.splits)

lemma addOption_present:
  "\<not> falsy_id (uo_id n) \<Longrightarrow> uo_id n \<in> uo_id ` set s \<Longrightarrow>
     addOption (Some n) s = map (\<lambda>opt. if uo_id opt = uo_id n then n else opt) s"
  by (auto simp: addOption_def find_None_iff in_image_conv split: option.splits)

lemma addOption_same_id_entries:
  assumes "\<not> falsy_id (uo_id n)"
  shows "filter (\<lambda>opt. uo_id opt = uo_id n) (addOption (Some n) s)
     = replicate (max 1 (length (filter (\<lambda>opt. uo_id opt = uo_id n) s))) n"
proof (cases "uo_id n \<in> uo_id ` set s")
  case True
  then have "filter (\<lambda>opt. uo_id opt = uo_id n) s \<noteq> []"
    by (auto simp: filter_empty_conv in_image_conv)
  then have "max 1 (length (filter (\<lambda>opt. uo_id opt = uo_id n) s))
      = length (filter (\<lambda>opt. uo_id opt = uo_id n) s)"
    by (cases "filter (\<lambda>opt. uo_id opt = uo_id n) s") auto
  then show ?thesis
    using assms True by (simp add: addOption_present filter_replace_same_id)
next
  case False
  then have "filter (\<lambda>opt. uo_id opt = uo_id n) s = []"
    by (auto simp: filter_empty_conv in_image_conv)
  then show ?thesis
    using assms False by (simp add: addOption_absent)
qed

lemma addOption_other_id_entries:
  "filter (\<lambda>opt. uo_id opt \<noteq> uo_id n) (addOption (Some n) s)
     = filter (\<lambda>opt. uo_id opt \<noteq> uo_id n) s"
  by (auto simp: addOption_def filter_replace_other_id split: option.splits)

text \<open>\<open>addOption\<close> keeps the ids of the store distinct.\<close>

lemma replace_keeps_ids:
  "map uo_id (map (\<lambda>opt. if uo_id opt = uo_id x then x else opt) s) = map uo_id s"
  by (induction s) auto

lemma addOption_keeps_distinct_ids:
  assumes "distinct (map uo_id s)"
  shows "distinct (map uo_id (addOption n s))"
proof (cases n)
  case None
  then show ?thesis using assms by (simp add: addOption_def)
next
  case (Some x)
  show ?thesis
  proof (cases "find (\<lambda>opt. uo_id opt = uo_id x) s")
    case None
    then have "uo_id x \<notin> set (map uo_id s)"
      by (auto simp: find_None_iff)
    then show ?thesis
      using assms Some None by (simp add: addOption_def)
  next
    case (Some y)
    show ?thesis
      using assms \<open>n = Some x\<close> Some
      by (simp add: addOption_def replace_keeps_ids del: map_map)
  qed
qed

section \<open>Persistence layer\<close>

subsection \<open>updateOptions\<close>

text \<open>
  A failure of the second call leaves the database as the first call left it: every
  value of the option is gone. A failure of the first call leaves the database as it was.
\<close>

lemma variantOption_update_failure_keeps:
  "variantOption_update f d oid name type vcs = (Inl e, d') \<Longrightarrow> d' = d"
  by (auto simp: variantOption_update_def Let_def split: option.splits if_splits)

lemma updateOptions_first_call_fails:
  "updateOptions (Some e) f2 d oid optionData = (Inl e, d)"
  by (simp add: updateOptions_def variantOptionValue_deleteMany_def)

lemma updateOptions_second_call_fails:
  assumes "updateOptions None f2 d oid optionData = (Inl e, d')"
  shows "d' = d\<lparr>variant_option_values :=
                  filter (\<lambda>v. vv_variantOptionId v \<noteq> oid) (variant_option_values d)\<rparr>"
  using assms
  by (auto simp: updateOptions_def variantOptionValue_deleteMany_def Let_def
      dest: variantOption_update_failure_keeps)

text \<open>A successful call replaces the values of the option and leaves the others.\<close>

lemma updateOptions_replaces_values:
  "updateOptions None None shop_db ''o1''
     \<lparr>ud_name = ''Size'', ud_type = None, ud_values = Some [Raw ''S'', Raw ''L'']\<rparr>
   = (Inr \<lparr>ov_option = \<lparr>vo_id = ''o1'', vo_name = ''Size'', vo_type = ''text'', vo_position = 2,
                         vo_isRequired = True, vo_shop = ''shopX''\<rparr>,
           ov_values = [\<lparr>vv_id = ''ccc'', vv_value = ''S'', vv_position = 0, vv_isActive = True,
                         vv_variantOptionId = ''o1''\<rparr>,
                        \<lparr>vv_id = ''cccc'', vv_value = ''L'', vv_position = 1, vv_isActive = True,
                         vv_variantOptionId = ''o1''\<rparr>]\<rparr>,
      \<lparr>variant_options = variant_options shop_db,
       variant_option_values =
         [\<lparr>vv_id = ''v3'', vv_value = ''Red'', vv_position = 0, vv_isActive = False,
           vv_variantOptionId = ''o2''\<rparr>,
          \<lparr>vv_id = ''v4'', vv_value = ''L'', vv_position = 0, vv_isActive = True,
           vv_variantOptionId = ''o3''\<rparr>,
          \<lparr>vv_id = ''ccc'', vv_value = ''S'', vv_position = 0, vv_isActive = True,
           vv_variantOptionId = ''o1''\<rparr>,
          \<lparr>vv_id = ''cccc'', vv_value = ''L'', vv_position = 1, vv_isActive = True,
           vv_variantOptionId = ''o1''\<rparr>]\<rparr>)"
  by (simp add: updateOptions_def variantOptionValue_deleteMany_def variantOption_update_def
      values_create_def map_index_def value_create_of_def shop_db_def values_of_option_def
      new_value_rows_def fresh_ids_def upt_rec [of 0] Let_def)

text \<open>
  Claim C1. The claim says that \<open>updateOptions\<close> is atomic; the code is not. In a shop
  that has the options Size (values M and S) and Color, renaming Size to Color fails on
  the unique \<open>(shop, name)\<close> constraint after the values of Size have been deleted: the
  call returns the error, and the stored state has lost both values of Size.
\<close>

theorem updateOptions_not_atomic:
  "updateOptions None None shop_db ''o1''
     \<lparr>ud_name = ''Color'', ud_type = Some ''text'', ud_values = Some [Raw ''S'', Raw ''L'']\<rparr>
   = (Inl unique_violation,
      \<lparr>variant_options = variant_options shop_db,
       variant_option_values =
         [\<lparr>vv_id = ''v3'', vv_value = ''Red'', vv_position = 0, vv_isActive = False,
           vv_variantOptionId = ''o2''\<rparr>,
          \<lparr>vv_id = ''v4'', vv_value = ''L'', vv_position = 0, vv_isActive = True,
           vv_variantOptionId = ''o3''\<rparr>]\<rparr>)
   \<and> values_of_option shop_db ''o1'' =
         [\<lparr>vv_id = ''v1'', vv_value = ''M'', vv_position = 1, vv_isActive = True,
           vv_variantOptionId = ''o1''\<rparr>,
          \<lparr>vv_id = ''v2'', vv_value = ''S'', vv_position = 0, vv_isActive = True,
           vv_variantOptionId = ''o1''\<rparr>]
   \<and> values_of_option
        (snd (updateOptions None None shop_db ''o1''
           \<lparr>ud_name = ''Color'', ud_type = Some ''text'',
            ud_values = Some [Raw ''S'', Raw ''L'']\<rparr>)) ''o1'' = []"
  by (simp add: updateOptions_def variantOptionValue_deleteMany_def variantOption_update_def
      values_create_def map_index_def value_create_of_def shop_db_def values_of_option_def
      upt_rec [of 0])

subsection \<open>createOptions\<close>

text \<open>
  What is stored for an element of \<open>values\<close>: a raw string, a missing position and a
  position \<open>0\<close> all get the array index; any other position is kept. A raw string and a
  missing \<open>isActive\<close> give \<open>true\<close>; an explicit \<open>isActive\<close> is kept.
\<close>

lemma values_create_nth:
  "i < length vals \<Longrightarrow> values_create vals ! i = value_create_of (vals ! i) i"
  by (simp add: values_create_def map_index_def)

lemma values_create_length: "length (values_create vals) = length vals"
  by (simp add: values_create_def map_index_def)

lemma stored_position:
  assumes "i < length vals"
  shows "(\<forall>s. vals ! i = Raw s \<longrightarrow> vc_position (values_create vals ! i) = int i)"
    and "(\<forall>v a. vals ! i = Obj v None a \<longrightarrow> vc_position (values_create vals ! i) = int i)"
    and "(\<forall>v p a. vals ! i = Obj v (Some p) a \<and> p \<noteq> 0 \<longrightarrow>
            vc_position (values_create vals ! i) = p)"
    and "(\<forall>v a. vals ! i = Obj v (Some 0) a \<longrightarrow> vc_position (values_create vals ! i) = int i)"
  using assms by (simp_all add: values_create_nth value_create_of_def)

lemma stored_isActive:
  assumes "i < length vals"
  shows "(\<forall>s. vals ! i = Raw s \<longrightarrow> vc_isActive (values_create vals ! i))"
    and "(\<forall>v p. vals ! i = Obj v p None \<longrightarrow> vc_isActive (values_create vals ! i))"
    and "(\<forall>v p a. vals ! i = Obj v p (Some a) \<longrightarrow> vc_isActive (values_create vals ! i) = a)"
  using assms by (simp_all add: values_create_nth value_create_of_def)

text \<open>A successful call appends the new option and one row per element of \<open>values\<close>.\<close>

lemma new_value_rows_length: "length (new_value_rows d oid vcs) = length vcs"
  by (simp add: new_value_rows_def fresh_ids_def)

lemma new_value_rows_nth:
  "i < length vcs \<Longrightarrow>
     vv_position (new_value_rows d oid vcs ! i) = vc_position (vcs ! i)
   \<and> vv_isActive (new_value_rows d oid vcs ! i) = vc_isActive (vcs ! i)
   \<and> vv_value (new_value_rows d oid vcs ! i) = the_VStr (vc_value (vcs ! i))
   \<and> vv_variantOptionId (new_value_rows d oid vcs ! i) = oid"
  by (simp add: new_value_rows_def fresh_ids_def)

lemma createOptions_stores:
  assumes "createOptions None d shop optionData = (Inr r, d')"
    and "od_values optionData = Some vals"
  shows "length (ov_values r) = length vals"
    and "variant_option_values d' = variant_option_values d @ ov_values r"
    and "variant_options d' = variant_options d @ [ov_option r]"
    and "\<forall>i < length vals.
           vv_position (ov_values r ! i) = position_of (vals ! i) i
         \<and> vv_isActive (ov_values r ! i) = isActive_of (vals ! i)
         \<and> vv_variantOptionId (ov_values r ! i) = vo_id (ov_option r)"
proof -
  let ?oid = "fresh_id (map vo_id (variant_options d))"
  have r: "ov_values r = new_value_rows d ?oid (values_create vals)"
    and o: "vo_id (ov_option r) = ?oid"
    and d': "variant_option_values d' = variant_option_values d @ ov_values r"
       "variant_options d' = variant_options d @ [ov_option r]"
    using assms
    by (auto simp: createOptions_def variantOption_create_def Let_def split: if_splits)
  show "length (ov_values r) = length vals"
    by (simp add: r new_value_rows_length values_create_length)
  show "variant_option_values d' = variant_option_values d @ ov_values r"
    "variant_options d' = variant_options d @ [ov_option r]"
    by (rule d')+
  show "\<forall>i < length vals.
           vv_position (ov_values r ! i) = position_of (vals ! i) i
         \<and> vv_isActive (ov_values r ! i) = isActive_of (vals ! i)
         \<and> vv_variantOptionId (ov_values r ! i) = vo_id (ov_option r)"
    by (simp add: r o new_value_rows_nth values_create_length values_create_nth
        value_create_of_def)
qed

text \<open>The example of the spec: \<open>["Red","Blue"]\<close> with default flags.\<close>

lemma createOptions_red_blue:
  "createOptions None empty_db ''shopX''
     \<lparr>od_name = ''Color'', od_type = None, od_position = None, od_isRequired = None,
      od_values = Some [Raw ''Red'', Raw ''Blue'']\<rparr>
   = (Inr \<lparr>ov_option = \<lparr>vo_id = ''c'', vo_name = ''Color'', vo_type = ''text'', vo_position = 0,
                         vo_isRequired = True, vo_shop = ''shopX''\<rparr>,
           ov_values = [\<lparr>vv_id = ''c'', vv_value = ''Red'', vv_position = 0, vv_isActive = True,
                         vv_variantOptionId = ''c''\<rparr>,
                        \<lparr>vv_id = ''cc'', vv_value = ''Blue'', vv_position = 1, vv_isActive = True,
                         vv_variantOptionId = ''c''\<rparr>]\<rparr>,
      \<lparr>variant_options = [\<lparr>vo_id = ''c'', vo_name = ''Color'', vo_type = ''text'', vo_position = 0,
                         vo_isRequired = True, vo_shop = ''shopX''\<rparr>],
       variant_option_values =
                       [\<lparr>vv_id = ''c'', vv_value = ''Red'', vv_position = 0, vv_isActive = True,
                         vv_variantOptionId = ''c''\<rparr>,
                        \<lparr>vv_id = ''cc'', vv_value = ''Blue'', vv_position = 1, vv_isActive = True,
                         vv_variantOptionId = ''c''\<rparr>]\<rparr>)"
  by (simp add: createOptions_def variantOption_create_def values_create_def map_index_def
      value_create_of_def empty_db_def new_value_rows_def fresh_ids_def fresh_id_def
      upt_rec [of 0] Let_def)

text \<open>
  Claim C3. The claim says that an explicit position is the one stored; the code stores
  the array index in place of an explicit position \<open>0\<close>. Creating an option with the
  values Red at position 1 and Blue at position 0 stores both at position 1.
\<close>

theorem createOptions_explicit_position_zero_lost:
  "map (\<lambda>v. (vv_value v, vv_position v))
     (variant_option_values (snd (createOptions None empty_db ''shopX''
        \<lparr>od_name = ''Color'', od_type = None, od_position = None, od_isRequired = None,
         od_values = Some [Obj (Some ''Red'') (Some 1) None, Obj (Some ''Blue'') (Some 0) None]\<rparr>)))
   = [(''Red'', 1), (''Blue'', 1)]"
  by (simp add: createOptions_def variantOption_create_def values_create_def map_index_def
      value_create_of_def empty_db_def new_value_rows_def fresh_ids_def fresh_id_def
      upt_rec [of 0] Let_def)

subsection \<open>getOptions\<close>

text \<open>
  Claim C4. For every database and shop, \<open>getOptions\<close> (the spec's \<open>listOptions\<close>)
  returns, when the query does not fail, exactly the options of the shop, in ascending
  order of position, each with exactly its own values in ascending order of position. A
  failure of the query is rethrown as it is.
\<close>

theorem getOptions_sorted_by_position:
  "(\<exists>res. getOptions None d shop = Inr res
      \<and> sorted (map (\<lambda>r. vo_position (ov_option r)) res)
      \<and> mset (map ov_option res) = mset (filter (\<lambda>opt. vo_shop opt = shop) (variant_options d))
      \<and> (\<forall>r \<in> set res.
            sorted (map vv_position (ov_values r))
          \<and> mset (ov_values r) =
              mset (filter (\<lambda>v. vv_variantOptionId v = vo_id (ov_option r))
                     (variant_option_values d))))
   \<and> getOptions (Some e) d shop = Inl e"
proof -
  let ?opts = "sort_key vo_position (filter (\<lambda>opt. vo_shop opt = shop) (variant_options d))"
  let ?res = "map (\<lambda>opt. \<lparr>ov_option = opt,
                 ov_values = sort_key vv_position (values_of_option d (vo_id opt))\<rparr>) ?opts"
  have run: "getOptions None d shop = Inr ?res"
    by (simp add: getOptions_def variantOption_findMany_shop_def)
  have opts: "map ov_option ?res = ?opts"
    by (simp add: comp_def)
  have "map (\<lambda>r. vo_position (ov_option r)) ?res = map vo_position ?opts"
    by (simp add: comp_def)
  then have s1: "sorted (map (\<lambda>r. vo_position (ov_option r)) ?res)"
    by (simp only: sorted_sort_key)
  have s2: "mset (map ov_option ?res) = mset (filter (\<lambda>opt. vo_shop opt = shop) (variant_options d))"
    by (simp only: opts mset_sort)
  have s3: "sorted (map vv_position (ov_values r))
          \<and> mset (ov_values r) =
              mset (filter (\<lambda>v. vv_variantOptionId v = vo_id (ov_option r))
                     (variant_option_values d))" if "r \<in> set ?res" for r
  proof -
    from that obtain opt where r: "r = \<lparr>ov_option = opt,
         ov_values = sort_key vv_position (values_of_option d (vo_id opt))\<rparr>"
      by auto
    show ?thesis
      by (simp add: r values_of_option_def sorted_sort_key)
  qed
  have fault: "getOptions (Some e) d shop = Inl e"
    by (simp add: getOptions_def variantOption_findMany_shop_def)
  show ?thesis
    using run s1 s2 s3 fault by blast
qed

theorem getOptions_sorted_by_position_witness:
  "getOptions None shop_db ''shopX'' =
     Inr [\<lparr>ov_option = \<lparr>vo_id = ''o2'', vo_name = ''Color'', vo_type = ''color'', vo_position = 1,
                        vo_isRequired = False, vo_shop = ''shopX''\<rparr>,
           ov_values = [\<lparr>vv_id = ''v3'', vv_value = ''Red'', vv_position = 0, vv_isActive = False,
                         vv_variantOptionId = ''o2''\<rparr>]\<rparr>,
          \<lparr>ov_option = \<lparr>vo_id = ''o1'', vo_name = ''Size'', vo_type = ''text'', vo_position = 2,
                        vo_isRequired = True, vo_shop = ''shopX''\<rparr>,
           ov_values = [\<lparr>vv_id = ''v2'', vv_value = ''S'', vv_position = 0, vv_isActive = True,
                         vv_variantOptionId = ''o1''\<rparr>,
                        \<lparr>vv_id = ''v1'', vv_value = ''M'', vv_position = 1, vv_isActive = True,
                         vv_variantOptionId = ''o1''\<rparr>]\<rparr>]"
  using getOptions_sorted_by_position [of shop_db "''shopX''"]
  by (simp add: getOptions_def variantOption_findMany_shop_def shop_db_def values_of_option_def)

subsection \<open>deleteOptions\<close>

lemma deleteOptions_wraps:
  "deleteOptions f1 f2 d ids shop =
     (case deleteOptions_try f1 f2 d ids shop of
        (Inl u, d') \<Rightarrow> (Inl (Err GenericError (''Failed to delete options: '' @ message u)), d')
      | (Inr r, d') \<Rightarrow> (Inr r, d'))"
  by (simp add: deleteOptions_def)

lemma deleteOptions_try_empty:
  "ids_of ids = [] \<Longrightarrow> deleteOptions_try f1 f2 d ids shop =
     (Inl (Err GenericError ''No option IDs provided for deletion''), d)"
  by (simp add: deleteOptions_try_def)

lemma deleteOptions_try_no_shop:
  "ids_of ids \<noteq> [] \<Longrightarrow> shop = None \<or> shop = Some [] \<Longrightarrow>
   deleteOptions_try f1 f2 d ids shop =
     (Inl (Err GenericError ''Shop identifier is required for deletion''), d)"
  by (auto simp: deleteOptions_try_def)

lemma deleteOptions_try_fault1:
  "ids_of ids \<noteq> [] \<Longrightarrow> s \<noteq> [] \<Longrightarrow>
   deleteOptions_try (Some u) f2 d ids (Some s) = (Inl u, d)"
  by (simp add: deleteOptions_try_def variantOption_findMany_in_def)

lemma deleteOptions_try_unmatched:
  assumes "ids_of ids \<noteq> []" "s \<noteq> []"
    and "length (filter (\<lambda>opt. vo_id opt \<in> set (ids_of ids) \<and> vo_shop opt = s) (variant_options d))
           \<noteq> length (ids_of ids)"
  shows "deleteOptions_try None f2 d ids (Some s) =
     (Inl (Err GenericError (''Some options not found or don't belong to this shop: '' @
        join '', '' (filter (\<lambda>i. \<not> (\<exists>opt \<in> set (variant_options d). vo_id opt = i \<and> vo_shop opt = s))
                       (ids_of ids)))), d)"
proof -
  have "filter (\<lambda>i. i \<notin> set (map fst (map (\<lambda>opt. (vo_id opt, vo_name opt))
            (filter (\<lambda>opt. vo_id opt \<in> set (ids_of ids) \<and> vo_shop opt = s) (variant_options d)))))
          (ids_of ids)
      = filter (\<lambda>i. \<not> (\<exists>opt \<in> set (variant_options d). vo_id opt = i \<and> vo_shop opt = s)) (ids_of ids)"
    by (rule filter_cong) (auto simp: image_iff)
  then show ?thesis
    using assms by (simp add: deleteOptions_try_def variantOption_findMany_in_def Let_def)
qed

lemma deleteOptions_try_fault2:
  assumes "ids_of ids \<noteq> []" "s \<noteq> []"
    and "length (filter (\<lambda>opt. vo_id opt \<in> set (ids_of ids) \<and> vo_shop opt = s) (variant_options d))
           = length (ids_of ids)"
  shows "deleteOptions_try None (Some u) d ids (Some s) = (Inl u, d)"
  using assms
  by (simp add: deleteOptions_try_def variantOption_findMany_in_def variantOption_deleteMany_def)

text \<open>
  Claim C10. Whatever the \<open>try\<close> block of \<open>deleteOptions\<close> throws, the caller gets a
  plain \<open>Error\<close> whose message is \<open>Failed to delete options: \<close> followed by the message
  of the error thrown. This holds of the two validation failures (no id, no shop), of
  the failure on unmatched ids, and of a failure of either query.
\<close>

theorem deleteOptions_failures_wrapped:
  "(\<forall>e d'. deleteOptions f1 f2 d ids shop = (Inl e, d') \<longrightarrow>
      err_class e = GenericError
    \<and> (\<exists>u. deleteOptions_try f1 f2 d ids shop = (Inl u, d')
          \<and> message e = ''Failed to delete options: '' @ message u))
   \<and> (ids_of ids = [] \<longrightarrow>
        deleteOptions f1 f2 d ids shop =
          (Inl (Err GenericError
             (''Failed to delete options: '' @ ''No option IDs provided for deletion'')), d))
   \<and> (ids_of ids \<noteq> [] \<and> (shop = None \<or> shop = Some []) \<longrightarrow>
        deleteOptions f1 f2 d ids shop =
          (Inl (Err GenericError
             (''Failed to delete options: '' @ ''Shop identifier is required for deletion'')), d))
   \<and> (\<forall>s. ids_of ids \<noteq> [] \<and> shop = Some s \<and> s \<noteq> [] \<and>
          length (filter (\<lambda>opt. vo_id opt \<in> set (ids_of ids) \<and> vo_shop opt = s) (variant_options d))
            \<noteq> length (ids_of ids) \<longrightarrow>
        deleteOptions None f2 d ids shop =
          (Inl (Err GenericError
             (''Failed to delete options: '' @
              ''Some options not found or don't belong to this shop: '' @
              join '', '' (filter (\<lambda>i. \<not> (\<exists>opt \<in> set (variant_options d).
                                           vo_id opt = i \<and> vo_shop opt = s)) (ids_of ids)))), d))
   \<and> (\<forall>s u. ids_of ids \<noteq> [] \<and> shop = Some s \<and> s \<noteq> [] \<longrightarrow>
        deleteOptions (Some u) f2 d ids shop =
          (Inl (Err GenericError (''Failed to delete options: '' @ message u)), d))
   \<and> (\<forall>s u. ids_of ids \<noteq> [] \<and> shop = Some s \<and> s \<noteq> [] \<and>
          length (filter (\<lambda>opt. vo_id opt \<in> set (ids_of ids) \<and> vo_shop opt = s) (variant_options d))
            = length (ids_of ids) \<longrightarrow>
        deleteOptions None (Some u) d ids shop =
          (Inl (Err GenericError (''Failed to delete options: '' @ message u)), d))"
proof -
  have general: "\<forall>e d'. deleteOptions f1 f2 d ids shop = (Inl e, d') \<longrightarrow>
      err_class e = GenericError
    \<and> (\<exists>u. deleteOptions_try f1 f2 d ids shop = (Inl u, d')
          \<and> message e = ''Failed to delete options: '' @ message u)"
    by (auto simp: deleteOptions_wraps split: prod.splits sum.splits)
  have empty: "ids_of ids = [] \<longrightarrow>
        deleteOptions f1 f2 d ids shop =
          (Inl (Err GenericError
             (''Failed to delete options: '' @ ''No option IDs provided for deletion'')), d)"
    by (simp add: deleteOptions_wraps deleteOptions_try_empty)
  have no_shop: "ids_of ids \<noteq> [] \<and> (shop = None \<or> shop = Some []) \<longrightarrow>
        deleteOptions f1 f2 d ids shop =
          (Inl (Err GenericError
             (''Failed to delete options: '' @ ''Shop identifier is required for deletion'')), d)"
    by (auto simp: deleteOptions_wraps deleteOptions_try_no_shop)
  have unmatched: "\<forall>s. ids_of ids \<noteq> [] \<and> shop = Some s \<and> s \<noteq> [] \<and>
          length (filter (\<lambda>opt. vo_id opt \<in> set (ids_of ids) \<and> vo_shop opt = s) (variant_options d))
            \<noteq> length (ids_of ids) \<longrightarrow>
        deleteOptions None f2 d ids shop =
          (Inl (Err GenericError
             (''Failed to delete options: '' @
              ''Some options not found or don't belong to this shop: '' @
              join '', '' (filter (\<lambda>i. \<not> (\<exists>opt \<in> set (variant_options d).
                                           vo_id opt = i \<and> vo_shop opt = s)) (ids_of ids)))), d)"
    by (auto simp: deleteOptions_wraps deleteOptions_try_unmatched simp del: append.simps)
  have fault1: "\<forall>s u. ids_of ids \<noteq> [] \<and> shop = Some s \<and> s \<noteq> [] \<longrightarrow>
        deleteOptions (Some u) f2 d ids shop =
          (Inl (Err GenericError (''Failed to delete options: '' @ message u)), d)"
    by (auto simp: deleteOptions_wraps deleteOptions_try_fault1 simp del: append.simps)
  have fault2: "\<forall>s u. ids_of ids \<noteq> [] \<and> shop = Some s \<and> s \<noteq> [] \<and>
          length (filter (\<lambda>opt. vo_id opt \<in> set (ids_of ids) \<and> vo_shop opt = s) (variant_options d))
            = length (ids_of ids) \<longrightarrow>
        deleteOptions None (Some u) d ids shop =
          (Inl (Err GenericError (''Failed to delete options: '' @ message u)), d)"
    by (auto simp: deleteOptions_wraps deleteOptions_try_fault2 simp del: append.simps)
  show ?thesis
    using general empty no_shop unmatched fault1 fault2 by blast
qed

theorem deleteOptions_failures_wrapped_witness:
  "deleteOptions None None shop_db (IdList []) (Some ''shopX'') =
     (Inl (Err GenericError ''Failed to delete options: No option IDs provided for deletion''),
      shop_db)
   \<and> deleteOptions None None shop_db (OneId ''o1'') None =
     (Inl (Err GenericError ''Failed to delete options: Shop identifier is required for deletion''),
      shop_db)
   \<and> deleteOptions None None shop_db (IdList [''o1'', ''o3'']) (Some ''shopX'') =
     (Inl (Err GenericError
        ''Failed to delete options: Some options not found or don't belong to this shop: o3''),
      shop_db)"
proof -
  have a: "deleteOptions None None shop_db (IdList []) (Some ''shopX'') =
     (Inl (Err GenericError ''Failed to delete options: No option IDs provided for deletion''),
      shop_db)"
    using deleteOptions_failures_wrapped [of None None shop_db "IdList []" "Some ''shopX''"]
    by simp
  have b: "deleteOptions None None shop_db (OneId ''o1'') None =
     (Inl (Err GenericError ''Failed to delete options: Shop identifier is required for deletion''),
      shop_db)"
    by (simp add: deleteOptions_def deleteOptions_try_def)
  have c: "deleteOptions None None shop_db (IdList [''o1'', ''o3'']) (Some ''shopX'') =
     (Inl (Err GenericError
        ''Failed to delete options: Some options not found or don't belong to this shop: o3''),
      shop_db)"
    by (simp add: deleteOptions_def deleteOptions_try_def variantOption_findMany_in_def shop_db_def)
  show ?thesis using a b c by simp
qed

text \<open>
  With distinct ids, a shop identifier, and a table whose ids are unique (the primary
  key), the verification accepts exactly when every id is an option of the shop; a list
  with a repeated id is never accepted.
\<close>

lemma owned_ids_subset: "vo_id ` set (owned d ids s) \<subseteq> set ids"
  by (auto simp: owned_def)

lemma owned_ids_distinct:
  "distinct (map vo_id (variant_options d)) \<Longrightarrow> distinct (map vo_id (owned d ids s))"
  by (simp add: owned_def distinct_map_filter)

lemma owned_length_le:
  assumes "distinct (map vo_id (variant_options d))"
  shows "length (owned d ids s) \<le> card (set ids)"
proof -
  have "length (owned d ids s) = card (set (map vo_id (owned d ids s)))"
    using owned_ids_distinct [OF assms, of ids s] by (metis distinct_card length_map)
  also have "\<dots> \<le> card (set ids)"
    by (rule card_mono) (simp_all add: owned_ids_subset)
  finally show ?thesis .
qed

lemma owned_all_iff:
  assumes pk: "distinct (map vo_id (variant_options d))" and ids: "distinct ids"
  shows "(length (owned d ids s) = length ids) = (set ids \<subseteq> set (map vo_id (owned d ids s)))"
proof
  assume len: "length (owned d ids s) = length ids"
  have "card (set (map vo_id (owned d ids s))) = length (owned d ids s)"
    using owned_ids_distinct [OF pk, of ids s] by (metis distinct_card length_map)
  then have "card (set (map vo_id (owned d ids s))) = card (set ids)"
    using len ids by (simp add: distinct_card)
  then have "set (map vo_id (owned d ids s)) = set ids"
    by (intro card_subset_eq) (simp_all add: owned_ids_subset)
  then show "set ids \<subseteq> set (map vo_id (owned d ids s))"
    by simp
next
  assume sub: "set ids \<subseteq> set (map vo_id (owned d ids s))"
  then have "set (map vo_id (owned d ids s)) = set ids"
    using owned_ids_subset [of d ids s] by auto
  then have "card (set (map vo_id (owned d ids s))) = card (set ids)"
    by simp
  then show "length (owned d ids s) = length ids"
    using owned_ids_distinct [OF pk, of ids s] ids
    by (metis distinct_card length_map)
qed

lemma duplicate_ids_never_match:
  assumes pk: "distinct (map vo_id (variant_options d))" and dup: "\<not> distinct ids"
  shows "length (owned d ids s) \<noteq> length ids"
proof -
  have "card (set ids) < length ids"
    using dup card_length [of ids] distinct_card [of ids] card_distinct [of ids]
    by (metis le_neq_implies_less)
  then show ?thesis
    using owned_length_le [OF pk, of ids s] by simp
qed

lemma id_in_owned:
  "i \<in> set ids \<Longrightarrow>
   (i \<in> set (map vo_id (owned d ids s))) =
   (\<exists>opt \<in> set (variant_options d). vo_id opt = i \<and> vo_shop opt = s)"
  by (auto simp: owned_def image_iff)

lemma deleteOptions_run:
  assumes "ids \<noteq> []" "s \<noteq> []"
  shows "deleteOptions None None d (IdList ids) (Some s) =
    (if length (owned d ids s) \<noteq> length ids then
       (Inl (Err GenericError
           (''Failed to delete options: '' @
            ''Some options not found or don't belong to this shop: '' @
            join '', '' (filter (\<lambda>i. i \<notin> vo_id ` set (owned d ids s)) ids))), d)
     else
       (Inr \<lparr>dr_success = True, dr_count = length (owned d ids s),
              dr_deletedOptions = map (\<lambda>opt. (vo_id opt, vo_name opt)) (owned d ids s)\<rparr>,
         \<lparr>variant_options =
            filter (\<lambda>opt. \<not> (vo_id opt \<in> set ids \<and> vo_shop opt = s)) (variant_options d),
          variant_option_values =
            filter (\<lambda>v. vv_variantOptionId v \<notin> vo_id ` set (owned d ids s))
              (variant_option_values d)\<rparr>))"
  using assms
  by (simp add: deleteOptions_def deleteOptions_try_def variantOption_findMany_in_def
      variantOption_deleteMany_def owned_def Let_def comp_def del: append.simps)

lemma owned_all_conv:
  assumes pk: "distinct (map vo_id (variant_options d))" and ids: "distinct ids"
  shows "(length (owned d ids s) = length ids) =
      (\<forall>i \<in> set ids. \<exists>opt \<in> set (variant_options d). vo_id opt = i \<and> vo_shop opt = s)"
proof -
  have "(set ids \<subseteq> set (map vo_id (owned d ids s))) =
      (\<forall>i \<in> set ids. \<exists>opt \<in> set (variant_options d). vo_id opt = i \<and> vo_shop opt = s)"
    using id_in_owned [of _ ids d s] by blast
  then show ?thesis
    by (simp only: owned_all_iff [OF pk ids])
qed

lemma not_owned_conv:
  "filter (\<lambda>i. i \<notin> vo_id ` set (owned d ids s)) ids
     = filter (\<lambda>i. \<not> (\<exists>opt \<in> set (variant_options d). vo_id opt = i \<and> vo_shop opt = s)) ids"
  by (rule filter_cong) (auto simp: owned_def)

lemma deleteOptions_distinct_ids_unmatched:
  assumes pk: "distinct (map vo_id (variant_options d))"
    and ne: "ids \<noteq> []" and ids: "distinct ids" and shop: "s \<noteq> []"
    and miss: "\<exists>i \<in> set ids. \<not> (\<exists>opt \<in> set (variant_options d). vo_id opt = i \<and> vo_shop opt = s)"
  shows "deleteOptions None None d (IdList ids) (Some s) =
        (Inl (Err GenericError
           (''Failed to delete options: '' @
            ''Some options not found or don't belong to this shop: '' @
            join '', '' (filter (\<lambda>i. \<not> (\<exists>opt \<in> set (variant_options d).
                                         vo_id opt = i \<and> vo_shop opt = s)) ids))), d)"
proof -
  have neq: "length (owned d ids s) \<noteq> length ids"
    using miss owned_all_conv [OF pk ids, of s] by blast
  show ?thesis
    unfolding deleteOptions_run [OF ne shop] not_owned_conv using neq by (simp only: not_False_eq_True if_True)
qed

lemma deleteOptions_distinct_ids_matched:
  assumes pk: "distinct (map vo_id (variant_options d))"
    and ne: "ids \<noteq> []" and ids: "distinct ids" and shop: "s \<noteq> []"
    and all: "\<forall>i \<in> set ids. \<exists>opt \<in> set (variant_options d). vo_id opt = i \<and> vo_shop opt = s"
  shows "deleteOptions None None d (IdList ids) (Some s) =
        (Inr \<lparr>dr_success = True, dr_count = length ids,
              dr_deletedOptions = map (\<lambda>opt. (vo_id opt, vo_name opt))
                 (filter (\<lambda>opt. vo_id opt \<in> set ids) (variant_options d))\<rparr>,
         \<lparr>variant_options = filter (\<lambda>opt. vo_id opt \<notin> set ids) (variant_options d),
          variant_option_values =
            filter (\<lambda>v. vv_variantOptionId v \<notin> set ids) (variant_option_values d)\<rparr>)"
proof -
  have len: "length (owned d ids s) = length ids"
    using all owned_all_conv [OF pk ids, of s] by blast
  have same_shop: "vo_shop opt = s" if "opt \<in> set (variant_options d)" "vo_id opt \<in> set ids" for opt
  proof -
    from all that(2) obtain opt' where o': "opt' \<in> set (variant_options d)"
      "vo_id opt' = vo_id opt" "vo_shop opt' = s"
      by blast
    have "inj_on vo_id (set (variant_options d))"
      using pk by (simp add: distinct_map)
    then have "opt' = opt"
      using o' that(1) by (auto dest: inj_onD)
    then show ?thesis using o' by simp
  qed
  have own: "owned d ids s = filter (\<lambda>opt. vo_id opt \<in> set ids) (variant_options d)"
    unfolding owned_def by (rule filter_cong) (auto simp: same_shop)
  have rest: "filter (\<lambda>opt. \<not> (vo_id opt \<in> set ids \<and> vo_shop opt = s)) (variant_options d)
      = filter (\<lambda>opt. vo_id opt \<notin> set ids) (variant_options d)"
    by (rule filter_cong) (auto simp: same_shop)
  have gone_ids: "vo_id ` set (owned d ids s) = set ids"
    using owned_all_iff [OF pk ids, of s] len owned_ids_subset [of d ids s] by auto
  show ?thesis
    unfolding deleteOptions_run [OF ne shop] gone_ids rest
    using len own by simp
qed

text \<open>A successful call removes the options and, by the cascade, their values.\<close>

lemma deleteOptions_cascades:
  "deleteOptions None None shop_db (IdList [''o1'', ''o2'']) (Some ''shopX'')
   = (Inr \<lparr>dr_success = True, dr_count = 2,
           dr_deletedOptions = [(''o1'', ''Size''), (''o2'', ''Color'')]\<rparr>,
      \<lparr>variant_options =
         [\<lparr>vo_id = ''o3'', vo_name = ''Size'', vo_type = ''text'', vo_position = 0,
           vo_isRequired = True, vo_shop = ''shopY''\<rparr>],
       variant_option_values =
         [\<lparr>vv_id = ''v4'', vv_value = ''L'', vv_position = 0, vv_isActive = True,
           vv_variantOptionId = ''o3''\<rparr>]\<rparr>)"
  by (simp add: deleteOptions_def deleteOptions_try_def variantOption_findMany_in_def
      variantOption_deleteMany_def shop_db_def)

text \<open>
  Claim C2. The claim says that a list whose ids all belong to the shop is deleted; the
  code rejects such a list when an id occurs twice. With \<open>o1\<close> an option of shopX, the
  ids \<open>[o1, o1]\<close> fail with the unmatched-ids error, which names no id, and nothing is
  deleted.
\<close>

theorem deleteOptions_duplicate_ids_rejected:
  "deleteOptions None None shop_db (IdList [''o1'', ''o1'']) (Some ''shopX'') =
     (Inl (Err GenericError
        ''Failed to delete options: Some options not found or don't belong to this shop: ''),
      shop_db)"
  by (simp add: deleteOptions_def deleteOptions_try_def variantOption_findMany_in_def shop_db_def)

section \<open>Option transformation and client state\<close>

text \<open>
  Claim C5. \<open>updateOptionObject\<close> (the spec's \<open>fromUiEdit\<close>) returns one value per
  new name, in the order of the new names, so a name that is not in the new list is not in
  the result. A name that no value of the original option has is checked. A name that
  the original option has takes the checked state of the first original value of that
  name, which is the only one when the original names are distinct. The option keeps its
  id and takes the new name and type.
\<close>

theorem updateOptionObject_preserves_checked:
  assumes "i < length vals"
  shows "map uv_name (uo_values (updateOptionObject orig n vals t)) = vals
    \<and> uo_name (updateOptionObject orig n vals t) = n
    \<and> uo_type (updateOptionObject orig n vals t) = t
    \<and> uo_id (updateOptionObject orig n vals t) = uo_id orig
    \<and> (vals ! i \<notin> uv_name ` set (uo_values orig) \<longrightarrow>
          uv_checked (uo_values (updateOptionObject orig n vals t) ! i) = True)
    \<and> (\<forall>j < length (uo_values orig).
          uv_name (uo_values orig ! j) = vals ! i \<and>
          (\<forall>k<j. uv_name (uo_values orig ! k) \<noteq> vals ! i) \<longrightarrow>
          uv_checked (uo_values (updateOptionObject orig n vals t) ! i) =
            uv_checked (uo_values orig ! j))
    \<and> (distinct (map uv_name (uo_values orig)) \<longrightarrow>
         (\<forall>ev \<in> set (uo_values orig). uv_name ev = vals ! i \<longrightarrow>
            uv_checked (uo_values (updateOptionObject orig n vals t) ! i) = uv_checked ev))"
proof -
  let ?r = "updateOptionObject orig n vals t"
  have names: "map uv_name (uo_values ?r) = vals"
    by (simp add: updateOptionObject_def comp_def map_idI split: option.splits)
  have fields: "uo_name ?r = n" "uo_type ?r = t" "uo_id ?r = uo_id orig"
    by (simp_all add: updateOptionObject_def)
  have at_i: "uv_checked (uo_values ?r ! i) =
      (case find (\<lambda>ev. uv_name ev = vals ! i) (uo_values orig) of
         Some ev \<Rightarrow> uv_checked ev | None \<Rightarrow> True)"
    using assms by (simp add: updateOptionObject_def split: option.splits)
  have new: "vals ! i \<notin> uv_name ` set (uo_values orig) \<longrightarrow> uv_checked (uo_values ?r ! i) = True"
    by (simp add: at_i find_no_match)
  have first: "\<forall>j < length (uo_values orig).
          uv_name (uo_values orig ! j) = vals ! i \<and>
          (\<forall>k<j. uv_name (uo_values orig ! k) \<noteq> vals ! i) \<longrightarrow>
          uv_checked (uo_values ?r ! i) = uv_checked (uo_values orig ! j)"
  proof (intro allI impI)
    fix j assume j: "j < length (uo_values orig)"
      and m: "uv_name (uo_values orig ! j) = vals ! i \<and>
          (\<forall>k<j. uv_name (uo_values orig ! k) \<noteq> vals ! i)"
    have "find (\<lambda>ev. uv_name ev = vals ! i) (uo_values orig) = Some (uo_values orig ! j)"
      by (rule find_first_match) (use j m in auto)
    then show "uv_checked (uo_values ?r ! i) = uv_checked (uo_values orig ! j)"
      by (simp add: at_i)
  qed
  have uniq: "distinct (map uv_name (uo_values orig)) \<longrightarrow>
         (\<forall>ev \<in> set (uo_values orig). uv_name ev = vals ! i \<longrightarrow>
            uv_checked (uo_values ?r ! i) = uv_checked ev)"
    by (auto simp: at_i find_unique_match)
  show ?thesis using names fields new first uniq by blast
qed

theorem updateOptionObject_preserves_checked_witness:
  "map uv_name (uo_values (updateOptionObject red_blue ''Color'' [''Red'', ''Green''] ''color''))
     = [''Red'', ''Green'']
   \<and> map uv_checked (uo_values (updateOptionObject red_blue ''Color'' [''Red'', ''Green''] ''color''))
     = [True, True]
   \<and> map uv_checked (uo_values (updateOptionObject red_blue ''Color'' [''Blue'', ''Green''] ''color''))
     = [False, True]"
  using updateOptionObject_preserves_checked [of 0 "[''Red'', ''Green'']" red_blue "''Color''" "''color''"]
  by (simp add: red_blue_def updateOptionObject_def)

text \<open>
  Claim C6. For an option object that \<open>addOption\<close> accepts (its id is not falsy) and a
  store that holds at most one entry of that id, two calls with options of the same id
  leave exactly one entry of that id, the second argument, and leave every other entry
  alone. A call repeated with the same argument changes nothing more. \<open>addOption\<close>
  appends when the id is absent and replaces the entry of that id in place when it is
  present.
\<close>

theorem addOption_idempotent_upsert:
  assumes "\<not> falsy_id (uo_id b)" and "uo_id a = uo_id b"
    and "length (filter (\<lambda>opt. uo_id opt = uo_id b) s) \<le> 1"
  shows "filter (\<lambda>opt. uo_id opt = uo_id b) (addOption (Some b) (addOption (Some a) s)) = [b]
    \<and> filter (\<lambda>opt. uo_id opt \<noteq> uo_id b) (addOption (Some b) (addOption (Some a) s))
        = filter (\<lambda>opt. uo_id opt \<noteq> uo_id b) s
    \<and> addOption (Some b) (addOption (Some b) s) = addOption (Some b) s
    \<and> (uo_id b \<notin> uo_id ` set s \<longrightarrow> addOption (Some b) s = s @ [b])
    \<and> (uo_id b \<in> uo_id ` set s \<longrightarrow>
         addOption (Some b) s = map (\<lambda>opt. if uo_id opt = uo_id b then b else opt) s)"
proof -
  let ?P = "\<lambda>opt. uo_id opt = uo_id b"
  have a_ok: "\<not> falsy_id (uo_id a)"
    using assms by simp
  have "filter ?P (addOption (Some a) s) = replicate (max 1 (length (filter ?P s))) a"
    using addOption_same_id_entries [OF a_ok, of s] assms(2) by simp
  moreover have "max 1 (length (filter ?P s)) = 1"
    using assms(3) by (simp add: max_def)
  ultimately have one: "filter ?P (addOption (Some a) s) = [a]"
    by simp
  have "filter ?P (addOption (Some b) (addOption (Some a) s))
      = replicate (max 1 (length (filter ?P (addOption (Some a) s)))) b"
    by (rule addOption_same_id_entries [OF assms(1)])
  then have first: "filter ?P (addOption (Some b) (addOption (Some a) s)) = [b]"
    by (simp add: one)
  have second: "filter (\<lambda>opt. uo_id opt \<noteq> uo_id b) (addOption (Some b) (addOption (Some a) s))
        = filter (\<lambda>opt. uo_id opt \<noteq> uo_id b) s"
    using addOption_other_id_entries [of a s] assms(2)
    by (simp add: addOption_other_id_entries)
  have in_after: "uo_id b \<in> uo_id ` set (addOption (Some b) s)"
    using assms(1) by (cases "uo_id b \<in> uo_id ` set s")
      (auto simp: addOption_absent addOption_present in_image_conv)
  have "addOption (Some b) (addOption (Some b) s)
      = map (\<lambda>opt. if uo_id opt = uo_id b then b else opt) (addOption (Some b) s)"
    by (rule addOption_present [OF assms(1) in_after])
  also have "\<dots> = addOption (Some b) s"
    using assms(1) by (cases "uo_id b \<in> uo_id ` set s")
      (auto simp: addOption_absent addOption_present in_image_conv intro!: map_idI)
  finally have third: "addOption (Some b) (addOption (Some b) s) = addOption (Some b) s" .
  show ?thesis
    using first second third addOption_absent [OF assms(1)] addOption_present [OF assms(1)]
    by blast
qed

theorem addOption_idempotent_upsert_witness:
  "\<not> falsy_id (uo_id colour_v2) \<and> uo_id colour_v1 = uo_id colour_v2
   \<and> length (filter (\<lambda>opt. uo_id opt = uo_id colour_v2) [red_blue]) \<le> 1
   \<and> addOption (Some colour_v2) (addOption (Some colour_v1) [red_blue]) = [red_blue, colour_v2]"
proof -
  have h1: "\<not> falsy_id (uo_id colour_v2)" by (simp add: colour_v2_def)
  have h2: "uo_id colour_v1 = uo_id colour_v2" by (simp add: colour_v1_def colour_v2_def)
  have h3: "length (filter (\<lambda>opt. uo_id opt = uo_id colour_v2) [red_blue]) \<le> 1" by simp
  have "addOption (Some colour_v2) (addOption (Some colour_v1) [red_blue]) = [red_blue, colour_v2]"
    by (simp add: addOption_def colour_v1_def colour_v2_def red_blue_def)
  then show ?thesis
    using h1 h2 h3 addOption_idempotent_upsert [OF h1 h2 h3] by simp
qed

text \<open>
  Claim C7. \<open>handleToggleAllValues\<close> (the spec's \<open>toggleAllValues\<close>) keeps the length of
  the store and every option of another id. For an option of the given id it changes
  nothing but the checked flags: when all values were checked all become unchecked,
  otherwise all become checked, and then a second call makes all unchecked.
\<close>

theorem handleToggleAllValues_select_all:
  assumes "i < length s"
  shows "length (handleToggleAllValues oid s) = length s
    \<and> (uo_id (s ! i) \<noteq> oid \<longrightarrow> handleToggleAllValues oid s ! i = s ! i)
    \<and> (uo_id (s ! i) = oid \<longrightarrow>
         (handleToggleAllValues oid s ! i)\<lparr>uo_values := uo_values (s ! i)\<rparr> = s ! i
       \<and> map uv_name (uo_values (handleToggleAllValues oid s ! i)) = map uv_name (uo_values (s ! i))
       \<and> map uv_position (uo_values (handleToggleAllValues oid s ! i))
            = map uv_position (uo_values (s ! i))
       \<and> (list_all uv_checked (uo_values (s ! i)) \<longrightarrow>
            list_all (\<lambda>v. \<not> uv_checked v) (uo_values (handleToggleAllValues oid s ! i)))
       \<and> (\<not> list_all uv_checked (uo_values (s ! i)) \<longrightarrow>
            list_all uv_checked (uo_values (handleToggleAllValues oid s ! i))
          \<and> list_all (\<lambda>v. \<not> uv_checked v)
              (uo_values (handleToggleAllValues oid (handleToggleAllValues oid s) ! i))))"
proof -
  let ?t = "handleToggleAllValues oid s"
  have len: "length ?t = length s"
    by (simp add: handleToggleAllValues_def)
  have other: "uo_id (s ! i) \<noteq> oid \<longrightarrow> ?t ! i = s ! i"
    using assms by (simp add: handleToggleAllValues_def)
  have once: "uo_id x = oid \<Longrightarrow> j < length xs \<Longrightarrow> xs ! j = x \<Longrightarrow>
      handleToggleAllValues oid xs ! j =
        x\<lparr>uo_values := map (\<lambda>v. v\<lparr>uv_checked := \<not> list_all uv_checked (uo_values x)\<rparr>) (uo_values x)\<rparr>"
    for x xs j
    by (auto simp: handleToggleAllValues_def Let_def)
  have same: ?thesis if eq: "uo_id (s ! i) = oid"
  proof -
    let ?x = "s ! i"
    have t_i: "?t ! i =
        ?x\<lparr>uo_values := map (\<lambda>v. v\<lparr>uv_checked := \<not> list_all uv_checked (uo_values ?x)\<rparr>) (uo_values ?x)\<rparr>"
      using once [OF eq assms refl] .
    have id_t: "uo_id (?t ! i) = oid"
      by (simp add: t_i eq)
    have tt_i: "handleToggleAllValues oid ?t ! i =
        (?t ! i)\<lparr>uo_values := map (\<lambda>v. v\<lparr>uv_checked := \<not> list_all uv_checked (uo_values (?t ! i))\<rparr>)
           (uo_values (?t ! i))\<rparr>"
      using once [of "?t ! i" i ?t] id_t assms len by simp
    have a: "(?t ! i)\<lparr>uo_values := uo_values ?x\<rparr> = ?x"
      by (simp add: t_i)
    have b: "map uv_name (uo_values (?t ! i)) = map uv_name (uo_values ?x)"
      "map uv_position (uo_values (?t ! i)) = map uv_position (uo_values ?x)"
      by (simp_all add: t_i comp_def)
    have c: "list_all uv_checked (uo_values ?x) \<longrightarrow>
            list_all (\<lambda>v. \<not> uv_checked v) (uo_values (?t ! i))"
      by (simp add: t_i list_all_iff)
    have d: "\<not> list_all uv_checked (uo_values ?x) \<longrightarrow> list_all uv_checked (uo_values (?t ! i))"
      by (simp add: t_i list_all_iff)
    have e: "\<not> list_all uv_checked (uo_values ?x) \<longrightarrow>
        list_all (\<lambda>v. \<not> uv_checked v) (uo_values (handleToggleAllValues oid ?t ! i))"
      by (simp add: tt_i) (simp add: t_i list_all_iff)
    show ?thesis using len eq a b c d e by simp
  qed
  show ?thesis
  proof (cases "uo_id (s ! i) = oid")
    case True
    then show ?thesis by (rule same)
  next
    case False
    then show ?thesis using len other by simp
  qed
qed

theorem handleToggleAllValues_select_all_witness:
  "(0::nat) < length [five_values, red_blue]
   \<and> map uv_checked (uo_values (handleToggleAllValues (StrId ''opt1'') [five_values, red_blue] ! 0))
       = [True, True, True, True, True]
   \<and> map uv_checked (uo_values (handleToggleAllValues (StrId ''opt1'')
         (handleToggleAllValues (StrId ''opt1'') [five_values, red_blue]) ! 0))
       = [False, False, False, False, False]
   \<and> handleToggleAllValues (StrId ''opt1'') [five_values, red_blue] ! 1 = red_blue"
  using handleToggleAllValues_select_all [of 0 "[five_values, red_blue]" "StrId ''opt1''"]
  by (simp add: five_values_def red_blue_def handleToggleAllValues_def)

text \<open>
  Claim C8, as amended. \<open>transformOptions\<close> of the hook maps \<open>value\<close> to \<open>name\<close> and
  \<open>isActive\<close> to \<open>checked\<close>, gives a missing (or empty) type the value \<open>text\<close>, gives a
  missing position the value \<open>0\<close> and puts a position on every option and value.
  \<open>transformLoadedOptions\<close> of optionUtils.js renames and defaults the type in the same
  way, but puts no position on any option or value.
\<close>

theorem transformOptions_renames_and_defaults:
  assumes "i < length los"
  shows "length (transformOptions los) = length los
    \<and> uo_id (transformOptions los ! i) = StrId (lo_id (los ! i))
    \<and> uo_name (transformOptions los ! i) = lo_name (los ! i)
    \<and> map uv_name (uo_values (transformOptions los ! i)) = map lv_value (lo_values (los ! i))
    \<and> map uv_checked (uo_values (transformOptions los ! i)) = map lv_isActive (lo_values (los ! i))
    \<and> (lo_type (los ! i) = None \<or> lo_type (los ! i) = Some [] \<longrightarrow>
          uo_type (transformOptions los ! i) = ''text'')
    \<and> (\<forall>t. lo_type (los ! i) = Some t \<and> t \<noteq> [] \<longrightarrow> uo_type (transformOptions los ! i) = t)
    \<and> (lo_position (los ! i) = None \<longrightarrow> uo_position (transformOptions los ! i) = Some 0)
    \<and> (\<forall>p. lo_position (los ! i) = Some p \<longrightarrow> uo_position (transformOptions los ! i) = Some p)
    \<and> map uv_position (uo_values (transformOptions los ! i))
         = map (\<lambda>v. case lv_position v of None \<Rightarrow> Some 0 | Some p \<Rightarrow> Some p) (lo_values (los ! i))
    \<and> length (transformLoadedOptions los) = length los
    \<and> uo_id (transformLoadedOptions los ! i) = StrId (lo_id (los ! i))
    \<and> uo_name (transformLoadedOptions los ! i) = lo_name (los ! i)
    \<and> map uv_name (uo_values (transformLoadedOptions los ! i)) = map lv_value (lo_values (los ! i))
    \<and> map uv_checked (uo_values (transformLoadedOptions los ! i))
         = map lv_isActive (lo_values (los ! i))
    \<and> (lo_type (los ! i) = None \<or> lo_type (los ! i) = Some [] \<longrightarrow>
          uo_type (transformLoadedOptions los ! i) = ''text'')
    \<and> (\<forall>t. lo_type (los ! i) = Some t \<and> t \<noteq> [] \<longrightarrow>
          uo_type (transformLoadedOptions los ! i) = t)
    \<and> uo_position (transformLoadedOptions los ! i) = None
    \<and> map uv_position (uo_values (transformLoadedOptions los ! i))
         = map (\<lambda>v. None) (lo_values (los ! i))"
proof -
  have hook: "transformOptions los ! i =
      \<lparr>uo_id = StrId (lo_id (los ! i)), uo_name = lo_name (los ! i),
       uo_type = or_str (lo_type (los ! i)) ''text'',
       uo_position = Some (or_int (lo_position (los ! i)) 0),
       uo_isRequired = Some (or_bool (lo_isRequired (los ! i)) True),
       uo_values = map (\<lambda>v. \<lparr>uv_name = lv_value v, uv_checked = lv_isActive v,
                              uv_position = Some (or_int (lv_position v) 0)\<rparr>)
                     (lo_values (los ! i))\<rparr>"
    using assms by (simp add: transformOptions_def)
  have util: "transformLoadedOptions los ! i =
      \<lparr>uo_id = StrId (lo_id (los ! i)), uo_name = lo_name (los ! i),
       uo_type = or_str (lo_type (los ! i)) ''text'',
       uo_position = None, uo_isRequired = None,
       uo_values = map (\<lambda>v. \<lparr>uv_name = lv_value v, uv_checked = lv_isActive v,
                              uv_position = None\<rparr>) (lo_values (los ! i))\<rparr>"
    using assms by (simp add: transformLoadedOptions_def)
  have lens: "length (transformOptions los) = length los"
    "length (transformLoadedOptions los) = length los"
    by (simp_all add: transformOptions_def transformLoadedOptions_def)
  have ty: "(lo_type (los ! i) = None \<or> lo_type (los ! i) = Some [] \<longrightarrow>
          or_str (lo_type (los ! i)) ''text'' = ''text'')
     \<and> (\<forall>t. lo_type (los ! i) = Some t \<and> t \<noteq> [] \<longrightarrow> or_str (lo_type (los ! i)) ''text'' = t)"
    by auto
  have pos: "(lo_position (los ! i) = None \<longrightarrow> or_int (lo_position (los ! i)) 0 = 0)
     \<and> (\<forall>p. lo_position (los ! i) = Some p \<longrightarrow> or_int (lo_position (los ! i)) 0 = p)"
    by auto
  have vpos: "map uv_position (uo_values (transformOptions los ! i))
         = map (\<lambda>v. case lv_position v of None \<Rightarrow> Some 0 | Some p \<Rightarrow> Some p) (lo_values (los ! i))"
    by (simp add: hook comp_def or_int_0 split: option.splits)
  show ?thesis
    using lens ty pos vpos by (simp add: hook util comp_def)
qed

theorem transformOptions_renames_and_defaults_witness:
  "(0::nat) < length [loaded_size]
   \<and> transformOptions [loaded_size] =
       [\<lparr>uo_id = StrId ''opt1'', uo_name = ''Size'', uo_type = ''text'', uo_position = Some 2,
         uo_isRequired = Some True,
         uo_values = [\<lparr>uv_name = ''S'', uv_checked = True, uv_position = Some 0\<rparr>,
                      \<lparr>uv_name = ''M'', uv_checked = False, uv_position = Some 1\<rparr>]\<rparr>]"
proof -
  have h: "(0::nat) < length [loaded_size]" by simp
  have "transformOptions [loaded_size] =
       [\<lparr>uo_id = StrId ''opt1'', uo_name = ''Size'', uo_type = ''text'', uo_position = Some 2,
         uo_isRequired = Some True,
         uo_values = [\<lparr>uv_name = ''S'', uv_checked = True, uv_position = Some 0\<rparr>,
                      \<lparr>uv_name = ''M'', uv_checked = False, uv_position = Some 1\<rparr>]\<rparr>]"
    by (simp add: transformOptions_def loaded_size_def)
  then show ?thesis
    using h transformOptions_renames_and_defaults [OF h] by simp
qed

text \<open>
  The claim as stated fails for \<open>transformLoadedOptions\<close>: an option stored at position
  2, with a value at position 1, comes out with no position at all.
\<close>

theorem transformLoadedOptions_no_position_counterexample:
  "uo_position (transformLoadedOptions [loaded_size] ! 0) = None
   \<and> map uv_position (uo_values (transformLoadedOptions [loaded_size] ! 0)) = [None, None]"
  by (simp add: transformLoadedOptions_def loaded_size_def)

text \<open>
  Claim C9. \<open>transformOptions\<close> gives every option \<open>isRequired = true\<close>, whatever the
  loaded option says (\<open>option.isRequired || true\<close>), so after a sync from the server every
  option of the client state has \<open>isRequired = true\<close>; an option stored with
  \<open>isRequired = false\<close> is no exception.
\<close>

theorem transformOptions_isRequired_always_true:
  "map uo_isRequired (transformOptions serverOptions) = map (\<lambda>option. Some True) serverOptions
   \<and> list_all (\<lambda>option. uo_isRequired option = Some True)
        (syncOptions (Some serverOptions) current)
   \<and> uo_isRequired (hd (transformOptions [option\<lparr>lo_isRequired := Some False\<rparr>])) = Some True"
  by (simp add: transformOptions_def syncOptions_def or_bool_True list_all_iff)

end
